theory Spec2Isabelle
  imports Complex_Main "HOL-Library.Sublist"
begin

section \<open>JavaScript values that cross a message boundary\<close>

text \<open>
  The three contexts of the extension (selector overlay in the page, background
  coordinator, offscreen worker) exchange JSON messages. A field of a message is
  modelled as a \<open>jsval\<close>. A JavaScript number is modelled as a real: \<open>NaN\<close> and the
  infinities do not survive the JSON serialisation of \<open>chrome.runtime.sendMessage\<close>
  (they arrive as \<open>null\<close>), and the rounding of double arithmetic is not modelled.
\<close>

datatype jsval = JUndefined | JNull | JBool bool | JNum real | JStr string

text \<open>\<open>typeof v === 'number'\<close>\<close>

definition typeof_number :: "jsval \<Rightarrow> bool" where
  "typeof_number v = (case v of JNum r \<Rightarrow> True | _ \<Rightarrow> False)"

text \<open>The numeric value of a field that has passed the \<open>typeof\<close> test.\<close>

definition num_of :: "jsval \<Rightarrow> real" where
  "num_of v = (case v of JNum r \<Rightarrow> r | _ \<Rightarrow> 0)"

text \<open>\<open>s || d\<close> on strings: the empty string is falsy.\<close>

definition or_else :: "string \<Rightarrow> string \<Rightarrow> string" where
  "or_else s d = (if s = [] then d else s)"

text \<open>\<open>o?.field || d\<close> where the field may be missing.\<close>

definition opt_or_else :: "string option \<Rightarrow> string \<Rightarrow> string" where
  "opt_or_else s d = (case s of None \<Rightarrow> d | Some t \<Rightarrow> or_else t d)"

text \<open>
  A template literal \<open>`${v}`\<close>. The decimal rendering of a number is a parameter
  \<open>n2s\<close> of every function that prints one.
\<close>

definition js_to_string :: "(real \<Rightarrow> string) \<Rightarrow> jsval \<Rightarrow> string" where
  "js_to_string n2s v =
     (case v of
        JUndefined \<Rightarrow> ''undefined''
      | JNull \<Rightarrow> ''null''
      | JBool b \<Rightarrow> (if b then ''true'' else ''false'')
      | JNum r \<Rightarrow> n2s r
      | JStr s \<Rightarrow> s)"

text \<open>An \<open>Error\<close> object: \<open>new Error(m)\<close> has the name \<open>Error\<close>.\<close>

record js_error =
  err_name :: string
  err_message :: string

definition Error :: "string \<Rightarrow> js_error" where
  "Error m = \<lparr>err_name = ''Error'', err_message = m\<rparr>"

text \<open>The settled state of a promise that the code awaits.\<close>

datatype 'a settled = Fulfilled 'a | Rejected js_error

section \<open>Messages and effects\<close>

text \<open>
  The \<open>coords\<close> object of a \<open>captureArea\<close> and of a \<open>cropAndCopy\<close> message:
  \<open>{x, y, width, height, devicePixelRatio}\<close>.
\<close>

record coords =
  c_x :: jsval
  c_y :: jsval
  c_width :: jsval
  c_height :: jsval
  c_devicePixelRatio :: jsval

text \<open>
  A request object as a listener of \<open>chrome.runtime.onMessage\<close> receives it. A field
  that is absent is \<open>JUndefined\<close>; an absent or null \<open>coords\<close> is \<open>None\<close>.
\<close>

record request =
  target :: jsval
  action :: jsval
  dataUrl :: jsval
  req_coords :: "coords option"

text \<open>The message of the older overlay (content.js): \<open>{type, rect, dpr}\<close>.\<close>

record rect =
  r_x :: real
  r_y :: real
  r_width :: real
  r_height :: real

record area_message =
  msg_type :: string
  msg_rect :: rect
  msg_dpr :: real

text \<open>The reply \<open>{success, error?}\<close>.\<close>

record reply =
  success :: bool
  error :: "string option"

text \<open>The raster blob a canvas produces: its byte size, its type and its pixel size.\<close>

record blob =
  blob_size :: nat
  blob_type :: string
  raster_width :: int
  raster_height :: int

text \<open>
  What a handler does to the world outside its own variables, in the order it does it.
  \<open>console.log\<close> lines are not recorded; \<open>console.warn\<close> lines of the worker are.
  \<open>CanvasSize\<close> is the size the canvas has after its width and height were written.
\<close>

datatype warning =
    SourceRectOutside int int int int nat nat
  | EmptyBlobFromCanvas
  | CroppedBlobEmpty
  | FocusUnavailable
  | NotForOffscreen
  | UnhandledAction

datatype effect =
    SendMessage request
  | SendAreaSelected area_message
  | SendResponse reply
  | Notification string string
  | GetContexts
  | CloseDocument
  | CreateDocument
  | AwaitCreating
  | CaptureVisibleTab
  | HideOverlay
  | Cleanup
  | RemoveSelectionBox
  | CanvasSize int int
  | OffscreenCanvasSize real real
  | DrawImage real real real real real real real real
  | ConsoleWarn warning
  | WindowFocus
  | ClipboardWrite string blob
  | Fetch

definition responses :: "effect list \<Rightarrow> reply list" where
  "responses es = concat (map (\<lambda>e. case e of SendResponse r \<Rightarrow> [r] | _ \<Rightarrow> []) es)"

definition notifications :: "effect list \<Rightarrow> (string \<times> string) list" where
  "notifications es = concat (map (\<lambda>e. case e of Notification t m \<Rightarrow> [(t, m)] | _ \<Rightarrow> []) es)"

definition sent_messages :: "effect list \<Rightarrow> effect list" where
  "sent_messages es =
     filter (\<lambda>e. case e of SendMessage m \<Rightarrow> True | SendAreaSelected m \<Rightarrow> True | _ \<Rightarrow> False) es"

section \<open>Selector overlay (content\_script.js)\<close>

text \<open>
  The variables of the closure: \<open>startX\<close>, \<open>startY\<close>, \<open>isDragging\<close>. The \<open>mouseup\<close>
  handler takes the event's \<open>clientX\<close>, \<open>clientY\<close> and \<open>window.devicePixelRatio\<close>.
\<close>

record selector =
  startX :: real
  startY :: real
  isDragging :: bool

definition mousedown :: "selector \<Rightarrow> real \<Rightarrow> real \<Rightarrow> selector" where
  "mousedown st clientX clientY = \<lparr>startX = clientX, startY = clientY, isDragging = True\<rparr>"

text \<open>The rectangle the handler computes from the start and the end of the drag.\<close>

definition selected_region :: "selector \<Rightarrow> real \<Rightarrow> real \<Rightarrow> rect" where
  "selected_region st endX endY =
     \<lparr>r_x = min (startX st) endX,
      r_y = min (startY st) endY,
      r_width = \<bar>endX - startX st\<bar>,
      r_height = \<bar>endY - startY st\<bar>\<rparr>"

definition captureArea_message :: "rect \<Rightarrow> real \<Rightarrow> request" where
  "captureArea_message region devicePixelRatio =
     \<lparr>target = JUndefined,
      action = JStr ''captureArea'',
      dataUrl = JUndefined,
      req_coords = Some
        \<lparr>c_x = JNum (r_x region * devicePixelRatio),
         c_y = JNum (r_y region * devicePixelRatio),
         c_width = JNum (r_width region * devicePixelRatio),
         c_height = JNum (r_height region * devicePixelRatio),
         c_devicePixelRatio = JNum devicePixelRatio\<rparr>\<rparr>"

definition mouseup :: "selector \<Rightarrow> real \<Rightarrow> real \<Rightarrow> real \<Rightarrow> selector \<times> effect list" where
  "mouseup st endX endY devicePixelRatio =
     (if \<not> isDragging st then (st, [])
      else
        let region = selected_region st endX endY
        in (st\<lparr>isDragging := False\<rparr>,
            HideOverlay #
              (if r_width region > 0 \<and> r_height region > 0
               then [SendMessage (captureArea_message region devicePixelRatio)]
               else [Cleanup])))"

text \<open>
  The message is sent from a timer 50 ms later; its callback calls \<open>cleanup()\<close> whatever
  the response is. Neither is modelled.
\<close>

section \<open>The older overlay (content.js)\<close>

text \<open>
  \<open>onMouseUp\<close> reads the bounding rectangle of the selection box (\<open>left\<close>, \<open>top\<close>,
  \<open>width\<close>, \<open>height\<close>, given here as a \<open>rect\<close>) and sends it with the device pixel
  ratio. \<open>hasBox\<close> is \<open>selectionBox !== null\<close>.
\<close>

definition onMouseUp :: "bool \<Rightarrow> bool \<Rightarrow> rect \<Rightarrow> real \<Rightarrow> effect list" where
  "onMouseUp isSelecting hasBox bounding devicePixelRatio =
     (if \<not> isSelecting \<or> \<not> hasBox then []
      else [RemoveSelectionBox,
            SendAreaSelected
              \<lparr>msg_type = ''areaSelected'',
               msg_rect = \<lparr>r_x = r_x bounding, r_y = r_y bounding,
                           r_width = r_width bounding, r_height = r_height bounding\<rparr>,
               msg_dpr = devicePixelRatio\<rparr>])"

section \<open>Worker (offscreen.js)\<close>

subsection \<open>cropImage\<close>

text \<open>
  What the document gives back while \<open>cropImage\<close> runs: whether the image loads
  (\<open>onload\<close> with \<open>img.width\<close>, \<open>img.height\<close>, or \<open>onerror\<close>), whether
  \<open>ctx.drawImage\<close> throws, and the blob \<open>canvas.toBlob\<close> hands to its callback
  (\<open>None\<close> for \<open>null\<close>, else its size and type).
\<close>

record image_env =
  image_loads :: "(nat \<times> nat) option"
  drawImage_throws :: "js_error option"
  toBlob_gives :: "(nat \<times> string) option"

text \<open>\<open>Math.round\<close> rounds half up: it is \<open>\<lfloor>v + 1/2\<rfloor>\<close>, which is \<^const>\<open>round\<close>.\<close>

definition Math_round :: "real \<Rightarrow> int" where
  "Math_round v = \<lfloor>v + 1 / 2\<rfloor>"

text \<open>
  \<open>canvas.width\<close> and \<open>canvas.height\<close> belong to the browser's canvas: they are
  unsigned 32-bit attributes. A number written to one is taken modulo \<open>2^32\<close>, and a
  value above \<open>2^31 - 1\<close> is replaced by the attribute's default, 300 for the width and
  150 for the height. \<open>cropImage\<close> writes the rounded sizes to them and reads them back
  for the destination of \<open>drawImage\<close>; the encoded raster has the size of the canvas.
\<close>

definition canvas_attribute :: "int \<Rightarrow> int \<Rightarrow> int" where
  "canvas_attribute fallback v =
     (let u = v mod 4294967296 in if u \<le> 2147483647 then u else fallback)"

definition source_rect_outside :: "int \<Rightarrow> int \<Rightarrow> int \<Rightarrow> int \<Rightarrow> nat \<Rightarrow> nat \<Rightarrow> bool" where
  "source_rect_outside sx sy sWidth sHeight img_width img_height =
     (sx < 0 \<or> sy < 0 \<or> sx + sWidth > int img_width + 5 \<or> sy + sHeight > int img_height + 5)"

text \<open>
  The ways \<open>cropImage\<close> rejects. \<open>crop_error_message\<close> is the text of the
  \<open>Error\<close> it rejects with.
\<close>

datatype crop_error =
    InvalidDataUrlFormat string
  | ImageLoadFailed
  | SourceDimensionsInvalid int int
  | DrawImageFailed js_error int int int int nat nat
  | ToBlobFailed

definition crop_error_message :: "(real \<Rightarrow> string) \<Rightarrow> crop_error \<Rightarrow> string" where
  "crop_error_message n2s ce =
     (case ce of
        InvalidDataUrlFormat url \<Rightarrow>
          ''[Offscreen cropImage] Invalid dataUrl format. Must start with '' @
          [CHR 0x27] @ ''data:image/'' @ [CHR 0x27] @
          ''. Received (first 30 chars): '' @ take 30 url
      | ImageLoadFailed \<Rightarrow>
          ''Image loading failed in offscreen document. The dataUrl might be malformed or too long.''
      | SourceDimensionsInvalid sWidth sHeight \<Rightarrow>
          ''Source dimensions for drawImage are invalid (w:'' @ n2s (of_int sWidth) @
          '', h:'' @ n2s (of_int sHeight) @ ''). Cannot be zero or negative.''
      | DrawImageFailed e sx sy sWidth sHeight img_width img_height \<Rightarrow>
          ''drawImage failed: '' @ err_name e @ '' - '' @ err_message e @
          ''. Check source coords (x:'' @ n2s (of_int sx) @ '',y:'' @ n2s (of_int sy) @
          '',w:'' @ n2s (of_int sWidth) @ '',h:'' @ n2s (of_int sHeight) @
          '') vs image ('' @ n2s (of_nat img_width) @ ''x'' @ n2s (of_nat img_height) @ '').''
      | ToBlobFailed \<Rightarrow> ''Canvas toBlob failed to produce a blob.'')"

definition cropImage ::
  "image_env \<Rightarrow> string \<Rightarrow> real \<Rightarrow> real \<Rightarrow> real \<Rightarrow> real \<Rightarrow> effect list \<times> (crop_error + blob)" where
  "cropImage ienv url x y width height =
     (if url = [] \<or> \<not> prefix ''data:image/'' url
      then ([], Inl (InvalidDataUrlFormat url))
      else
        (case image_loads ienv of
           None \<Rightarrow> ([], Inl ImageLoadFailed)
         | Some (img_width, img_height) \<Rightarrow>
             let roundedWidth = max 1 (Math_round width);
                 roundedHeight = max 1 (Math_round height);
                 sx = Math_round x;
                 sy = Math_round y;
                 sWidth = max 1 (Math_round width);
                 sHeight = max 1 (Math_round height);
                 canvas_width = canvas_attribute 300 roundedWidth;
                 canvas_height = canvas_attribute 150 roundedHeight;
                 canvas = [CanvasSize canvas_width canvas_height];
                 warned =
                   (if source_rect_outside sx sy sWidth sHeight img_width img_height
                    then [ConsoleWarn (SourceRectOutside sx sy sWidth sHeight img_width img_height)]
                    else []);
                 draw = [DrawImage (of_int sx) (of_int sy) (of_int sWidth) (of_int sHeight)
                           0 0 (of_int canvas_width) (of_int canvas_height)]
             in
               if sWidth \<le> 0 \<or> sHeight \<le> 0
               then (canvas @ warned, Inl (SourceDimensionsInvalid sWidth sHeight))
               else
                 (case drawImage_throws ienv of
                    Some e \<Rightarrow>
                      (canvas @ warned @ draw,
                       Inl (DrawImageFailed e sx sy sWidth sHeight img_width img_height))
                  | None \<Rightarrow>
                      (case toBlob_gives ienv of
                         None \<Rightarrow> (canvas @ warned @ draw, Inl ToBlobFailed)
                       | Some (bsize, btype) \<Rightarrow>
                           (canvas @ warned @ draw @
                              (if bsize > 0 then [] else [ConsoleWarn EmptyBlobFromCanvas]),
                            Inr \<lparr>blob_size = bsize, blob_type = btype,
                                 raster_width = canvas_width, raster_height = canvas_height\<rparr>)))))"

subsection \<open>The message listener\<close>

record worker_env =
  image :: image_env
  focus_available :: bool
  clipboard_write :: "js_error option"

definition valid_dataUrl :: "jsval \<Rightarrow> bool" where
  "valid_dataUrl v = (case v of JStr s \<Rightarrow> s \<noteq> [] \<and> prefix ''data:image/'' s | _ \<Rightarrow> False)"

definition numeric_coords :: "coords option \<Rightarrow> bool" where
  "numeric_coords c =
     (case c of
        None \<Rightarrow> False
      | Some k \<Rightarrow> typeof_number (c_x k) \<and> typeof_number (c_y k) \<and>
                 typeof_number (c_width k) \<and> typeof_number (c_height k))"

definition invalid_dimensions :: "(real \<Rightarrow> string) \<Rightarrow> real \<Rightarrow> real \<Rightarrow> js_error" where
  "invalid_dimensions n2s width height =
     Error (''Crop dimensions are invalid (width: '' @ n2s width @ '', height: '' @ n2s height @
            ''). Must be positive.'')"

text \<open>The \<open>catch\<close> block of the \<open>cropAndCopy\<close> flow.\<close>

definition worker_failure :: "js_error \<Rightarrow> effect list" where
  "worker_failure e =
     [SendResponse
        \<lparr>success = False,
         error = Some (''Offscreen: '' @ or_else (err_name e) ''Error'' @ '' - '' @
                       or_else (err_message e) ''Unknown error'')\<rparr>]"

definition cropAndCopy :: "(real \<Rightarrow> string) \<Rightarrow> worker_env \<Rightarrow> jsval \<Rightarrow> coords option \<Rightarrow> effect list" where
  "cropAndCopy n2s wenv url c =
     (case url of
        JStr u \<Rightarrow>
          if \<not> valid_dataUrl url then worker_failure (Error ''Invalid or missing dataUrl.'')
          else
            (case c of
               None \<Rightarrow> worker_failure (Error ''Invalid or missing coordinates.'')
             | Some k \<Rightarrow>
                 if \<not> numeric_coords c then worker_failure (Error ''Invalid or missing coordinates.'')
                 else
                   let x = num_of (c_x k); y = num_of (c_y k);
                       width = num_of (c_width k); height = num_of (c_height k)
                   in
                     if width \<le> 0 \<or> height \<le> 0
                     then worker_failure (invalid_dimensions n2s width height)
                     else
                       (case cropImage (image wenv) u x y width height of
                          (es, Inl ce) \<Rightarrow> es @ worker_failure (Error (crop_error_message n2s ce))
                        | (es, Inr b) \<Rightarrow>
                            es @
                            (if blob_size b = 0 then [ConsoleWarn CroppedBlobEmpty] else []) @
                            (if focus_available wenv then [WindowFocus]
                             else [ConsoleWarn FocusUnavailable]) @
                            [ClipboardWrite (or_else (blob_type b) ''image/png'') b] @
                            (case clipboard_write wenv of
                               Some e \<Rightarrow> worker_failure e
                             | None \<Rightarrow> [SendResponse \<lparr>success = True, error = None\<rparr>])))
      | _ \<Rightarrow> worker_failure (Error ''Invalid or missing dataUrl.''))"

text \<open>The listener returns its effects and the value it returns to the runtime.\<close>

definition offscreen_listener :: "(real \<Rightarrow> string) \<Rightarrow> worker_env \<Rightarrow> request \<Rightarrow> effect list \<times> bool" where
  "offscreen_listener n2s wenv req =
     (if target req \<noteq> JStr ''offscreen'' then ([ConsoleWarn NotForOffscreen], False)
      else if action req = JStr ''cropAndCopy''
      then (cropAndCopy n2s wenv (dataUrl req) (req_coords req), True)
      else ([ConsoleWarn UnhandledAction,
             SendResponse
               \<lparr>success = False,
                error = Some (''Offscreen: Unknown action '' @ [CHR 0x27] @
                              js_to_string n2s (action req) @ [CHR 0x27])\<rparr>],
            False))"

section \<open>Coordinator (background.js)\<close>

text \<open>
  The file holds two versions of the offscreen-document management, here \<open>_A\<close> (the
  first, which asks \<open>chrome.offscreen.getContexts\<close>) and \<open>_C\<close> (the one logged as
  "Version with runtime.getContexts fix"), with the same message listener.

  The browser is not part of the repository. What it answers to each call of the code is
  a field of \<open>chrome_env\<close>; the theorems hold for every answer. A contexts query answers
  \<open>None\<close> for a falsy \<open>contexts\<close> and \<open>Some n\<close> for an array of \<open>n\<close> contexts. The
  answer of \<open>closeDocument\<close> is no field: both versions catch its rejection and go on.
\<close>

record chrome_env =
  offscreen_api :: bool
  runtime_getContexts_api :: bool
  contexts_at_close :: "nat option settled"
  contexts_after_await :: "nat option settled"
  contexts_before_create :: "nat option settled"
  createDocument_answer :: "unit settled"

text \<open>
  \<open>creatingOffscreenPromise\<close>: \<open>None\<close> is \<open>null\<close>; \<open>Some p\<close> is the promise of a
  creation in flight, with the state \<open>p\<close> it settles in.
\<close>

type_synonym marker = "unit settled option"

definition contexts_nonempty :: "nat option \<Rightarrow> bool" where
  "contexts_nonempty contexts = (case contexts of None \<Rightarrow> False | Some n \<Rightarrow> n > 0)"

subsection \<open>First version\<close>

definition hasOffscreenDocument_A :: "chrome_env \<Rightarrow> nat option settled \<Rightarrow> effect list \<times> (js_error + bool)" where
  "hasOffscreenDocument_A env answer =
     (if \<not> offscreen_api env then ([], Inr False)
      else
        (case answer of
           Rejected e \<Rightarrow> ([GetContexts], Inl e)
         | Fulfilled contexts \<Rightarrow> ([GetContexts], Inr (contexts_nonempty contexts))))"

definition closeOffscreenDocument_A :: "chrome_env \<Rightarrow> effect list \<times> (js_error + unit)" where
  "closeOffscreenDocument_A env =
     (if \<not> offscreen_api env then ([], Inr ())
      else
        (case hasOffscreenDocument_A env (contexts_at_close env) of
           (es, Inl e) \<Rightarrow> (es, Inl e)
         | (es, Inr has) \<Rightarrow>
             if has then (es @ [CloseDocument], Inr ())
             else (es, Inr ())))"

definition no_offscreen_api :: js_error where
  "no_offscreen_api = Error ''Background: chrome.offscreen API is not available. Cannot proceed.''"

text \<open>The part of \<open>setupOffscreenDocumentForClipboard\<close> from the creation on.\<close>

definition create_and_await :: "chrome_env \<Rightarrow> effect list \<Rightarrow> effect list \<times> (js_error + unit) \<times> marker" where
  "create_and_await env es =
     (case createDocument_answer env of
        Fulfilled u \<Rightarrow> (es @ [CreateDocument], Inr (), None)
      | Rejected e \<Rightarrow> (es @ [CreateDocument], Inl e, None))"

definition setupOffscreenDocumentForClipboard_A ::
  "chrome_env \<Rightarrow> marker \<Rightarrow> effect list \<times> (js_error + unit) \<times> marker" where
  "setupOffscreenDocumentForClipboard_A env creatingOffscreenPromise =
     (if \<not> offscreen_api env then ([], Inl no_offscreen_api, creatingOffscreenPromise)
      else
        (case closeOffscreenDocument_A env of
           (es, Inl e) \<Rightarrow> (es, Inl e, creatingOffscreenPromise)
         | (es, Inr u) \<Rightarrow>
             (case creatingOffscreenPromise of
                Some (Fulfilled v) \<Rightarrow> (es @ [AwaitCreating], Inr (), creatingOffscreenPromise)
              | Some (Rejected e) \<Rightarrow> (es @ [AwaitCreating], Inl e, creatingOffscreenPromise)
              | None \<Rightarrow> create_and_await env es)))"

subsection \<open>Version with the runtime.getContexts fix\<close>

definition hasOffscreenDocument_C :: "chrome_env \<Rightarrow> nat option settled \<Rightarrow> effect list \<times> (js_error + bool)" where
  "hasOffscreenDocument_C env answer =
     (if runtime_getContexts_api env
      then
        (case answer of
           Rejected e \<Rightarrow> ([GetContexts], Inl e)
         | Fulfilled contexts \<Rightarrow> ([GetContexts], Inr (contexts_nonempty contexts)))
      else ([], Inr False))"

text \<open>Here the \<open>try\<close> encloses the query too: nothing escapes \<open>closeOffscreenDocument\<close>.\<close>

definition closeOffscreenDocument_C :: "chrome_env \<Rightarrow> effect list \<times> (js_error + unit)" where
  "closeOffscreenDocument_C env =
     (if \<not> offscreen_api env then ([], Inr ())
      else
        (case hasOffscreenDocument_C env (contexts_at_close env) of
           (es, Inl e) \<Rightarrow> (es, Inr ())
         | (es, Inr has) \<Rightarrow>
             if has then (es @ [CloseDocument], Inr ())
             else (es, Inr ())))"

text \<open>The double check before the creation, and the creation.\<close>

definition check_and_create :: "chrome_env \<Rightarrow> marker \<Rightarrow> effect list \<Rightarrow> effect list \<times> (js_error + unit) \<times> marker" where
  "check_and_create env creatingOffscreenPromise es =
     (case hasOffscreenDocument_C env (contexts_before_create env) of
        (es2, Inl e) \<Rightarrow> (es @ es2, Inl e, creatingOffscreenPromise)
      | (es2, Inr has) \<Rightarrow>
          if has then (es @ es2, Inr (), creatingOffscreenPromise)
          else create_and_await env (es @ es2))"

definition setupOffscreenDocumentForClipboard_C ::
  "chrome_env \<Rightarrow> marker \<Rightarrow> effect list \<times> (js_error + unit) \<times> marker" where
  "setupOffscreenDocumentForClipboard_C env creatingOffscreenPromise =
     (if \<not> offscreen_api env then ([], Inl no_offscreen_api, creatingOffscreenPromise)
      else
        (case closeOffscreenDocument_C env of
           (es, Inl e) \<Rightarrow> (es, Inl e, creatingOffscreenPromise)
         | (es, Inr u) \<Rightarrow>
             (case creatingOffscreenPromise of
                Some (Rejected e) \<Rightarrow> (es @ [AwaitCreating], Inl e, creatingOffscreenPromise)
              | Some (Fulfilled v) \<Rightarrow>
                  (case hasOffscreenDocument_C env (contexts_after_await env) of
                     (es1, Inl e) \<Rightarrow> (es @ [AwaitCreating] @ es1, Inl e, creatingOffscreenPromise)
                   | (es1, Inr has) \<Rightarrow>
                       if has then (es @ [AwaitCreating] @ es1, Inr (), creatingOffscreenPromise)
                       else check_and_create env creatingOffscreenPromise (es @ [AwaitCreating] @ es1))
              | None \<Rightarrow> check_and_create env creatingOffscreenPromise es)))"

subsection \<open>The message listener\<close>

text \<open>
  What the browser answers during the \<open>captureArea\<close> flow: the data URL of
  \<open>captureVisibleTab\<close> (\<open>None\<close> for \<open>undefined\<close>), the reply to the \<open>cropAndCopy\<close>
  message (\<open>None\<close> when the worker sent none), and \<open>chrome.runtime.lastError\<close> after
  each (\<open>Some m\<close>: set, with message \<open>m\<close>).
\<close>

record capture_env =
  captureVisibleTab_answer :: "string option settled"
  lastError_after_capture :: "string option"
  sendMessage_answer :: "reply option settled"
  lastError_after_send :: "string option"

text \<open>The \<open>catch\<close> block of the flow.\<close>

definition captureArea_catch :: "js_error \<Rightarrow> effect list" where
  "captureArea_catch e =
     [Notification ''Screenshot Error'' (or_else (err_message e) ''An unexpected error occurred.''),
      SendResponse
        \<lparr>success = False,
         error = Some (''Background: '' @ or_else (err_message e) ''An unexpected error occurred.'')\<rparr>]"

definition cropAndCopy_request :: "string \<Rightarrow> coords option \<Rightarrow> request" where
  "cropAndCopy_request url c =
     \<lparr>target = JStr ''offscreen'', action = JStr ''cropAndCopy'', dataUrl = JStr url, req_coords = c\<rparr>"

text \<open>After the worker's reply has arrived.\<close>

definition report_reply :: "reply option \<Rightarrow> effect list" where
  "report_reply offscreenResponse =
     (if (case offscreenResponse of None \<Rightarrow> False | Some r \<Rightarrow> success r)
      then [Notification ''Screenshot Copied!'' ''The selected area has been copied to your clipboard.'',
            SendResponse \<lparr>success = True, error = None\<rparr>]
      else
        let errorMsg =
              opt_or_else (case offscreenResponse of None \<Rightarrow> None | Some r \<Rightarrow> error r)
                ''Unknown error from screenshot processing service.''
        in [Notification ''Screenshot Failed'' errorMsg,
            SendResponse \<lparr>success = False, error = Some errorMsg\<rparr>])"

text \<open>
  The asynchronous body. \<open>ensureWorker\<close> is \<open>setupOffscreenDocumentForClipboard\<close> of
  either version, already applied to the browser's answers.
\<close>

definition captureArea_flow ::
  "(marker \<Rightarrow> effect list \<times> (js_error + unit) \<times> marker) \<Rightarrow> capture_env \<Rightarrow> request \<Rightarrow> marker
     \<Rightarrow> effect list \<times> marker" where
  "captureArea_flow ensureWorker cenv req creatingOffscreenPromise =
     (case ensureWorker creatingOffscreenPromise of
        (es, Inl e, m) \<Rightarrow> (es @ captureArea_catch e, m)
      | (es, Inr u, m) \<Rightarrow>
          (case captureVisibleTab_answer cenv of
             Rejected e \<Rightarrow> (es @ [CaptureVisibleTab] @ captureArea_catch e, m)
           | Fulfilled url \<Rightarrow>
               let no_capture =
                     (es @ [CaptureVisibleTab] @
                        captureArea_catch
                          (Error (''Failed to capture tab: '' @
                                  opt_or_else (lastError_after_capture cenv) ''No dataUrl received'')),
                      m)
               in
                 (case url of
                    None \<Rightarrow> no_capture
                  | Some u \<Rightarrow>
                      if lastError_after_capture cenv \<noteq> None \<or> u = [] then no_capture
                      else
                        let sent = es @ [CaptureVisibleTab,
                                         SendMessage (cropAndCopy_request u (req_coords req))]
                        in
                          (case sendMessage_answer cenv of
                             Rejected e \<Rightarrow> (sent @ captureArea_catch e, m)
                           | Fulfilled offscreenResponse \<Rightarrow>
                               (case lastError_after_send cenv of
                                  Some msg \<Rightarrow>
                                    (sent @ captureArea_catch
                                              (Error (''Error messaging offscreen: '' @ msg)),
                                     m)
                                | None \<Rightarrow> (sent @ report_reply offscreenResponse, m))))))"

text \<open>
  The listener: \<open>sender_tab\<close> is \<open>sender.tab\<close> (its window id), \<open>None\<close> when missing.
  The second component is the value returned to the runtime (\<open>true\<close>: the response
  comes later).
\<close>

definition background_listener ::
  "(marker \<Rightarrow> effect list \<times> (js_error + unit) \<times> marker) \<Rightarrow> capture_env \<Rightarrow> request \<Rightarrow> nat option
     \<Rightarrow> marker \<Rightarrow> effect list \<times> bool \<times> marker" where
  "background_listener ensureWorker cenv req sender_tab creatingOffscreenPromise =
     (if action req = JStr ''captureArea''
      then
        (case sender_tab of
           None \<Rightarrow>
             ([SendResponse
                 \<lparr>success = False,
                  error = Some ''Background: Internal error - missing tab context.''\<rparr>],
              False, creatingOffscreenPromise)
         | Some windowId \<Rightarrow>
             (case captureArea_flow ensureWorker cenv req creatingOffscreenPromise of
                (es, m) \<Rightarrow> (es, True, m)))
      else ([], False, creatingOffscreenPromise))"

section \<open>The older background script (areaSelected)\<close>

text \<open>
  The listener takes no \<open>sendResponse\<close>. \<open>cropImage\<close> resolves only from
  \<open>convertToBlob().then(resolve)\<close> inside \<open>onload\<close>; when the image does not load, when
  \<open>drawImage\<close> throws or when the conversion rejects, the promise stays pending, which
  is \<open>None\<close>.
\<close>

record legacy_env =
  legacy_image_loads :: bool
  legacy_drawImage_throws :: bool
  legacy_convertToBlob :: "blob option"
  removebg_response :: "blob option settled"

definition cropImage_legacy :: "legacy_env \<Rightarrow> rect \<Rightarrow> real \<Rightarrow> effect list \<times> blob option" where
  "cropImage_legacy lenv r dpr =
     (if \<not> legacy_image_loads lenv then ([], None)
      else
        let es = [OffscreenCanvasSize (r_width r) (r_height r),
                  DrawImage (r_x r * dpr) (r_y r * dpr) (r_width r * dpr) (r_height r * dpr)
                    0 0 (r_width r) (r_height r)]
        in if legacy_drawImage_throws lenv then (es, None)
           else (es, legacy_convertToBlob lenv))"


section \<open>Concurrent calls of setupOffscreenDocumentForClipboard\<close>

text \<open>
  JavaScript runs one call until it reaches an \<open>await\<close>; another call can run before
  the first is resumed. A call is therefore a program counter that names the \<open>await\<close>
  it is suspended at, and a step resumes one call with the browser's answer and runs it
  to its next \<open>await\<close>. \<open>creatingOffscreenPromise\<close> is shared by all calls; the promise
  it holds is named by the call that created it. The trace records which call issued
  which request, in order. The answers, also the state in which an awaited promise
  settles, come with the schedule: nothing is assumed about the browser.

  The program counters, with the lines of the version with the runtime.getContexts fix:
  \<open>AwaitContextsAtClose\<close> is the query inside \<open>closeOffscreenDocument\<close> (line 258),
  \<open>AwaitCloseDocument\<close> the \<open>closeDocument\<close> (260), \<open>AfterClose\<close> the return from
  \<open>await closeOffscreenDocument()\<close> (281), \<open>AwaitInFlight\<close> the
  \<open>await creatingOffscreenPromise\<close> of another call's promise (287),
  \<open>AwaitContextsAfterAwait\<close> the query after it (290), \<open>AwaitContextsBeforeCreate\<close>
  the double check (302) and \<open>AwaitOwnCreation\<close> the \<open>await\<close> of the call's own
  promise (316). The first version has neither the query of line 290 nor the double
  check.
\<close>

datatype pc =
    Start
  | AwaitContextsAtClose
  | AwaitCloseDocument
  | AfterClose
  | AwaitInFlight nat
  | AwaitContextsAfterAwait
  | AwaitContextsBeforeCreate
  | AwaitOwnCreation
  | Returned
  | Thrown js_error

datatype answer =
    Go
  | Contexts "nat option settled"
  | Closed "unit settled"
  | Created "unit settled"

record coordinator =
  creating :: "nat option"
  pcs :: "nat \<Rightarrow> pc"
  trace :: "(nat \<times> effect) list"

definition idle :: coordinator where
  "idle = \<lparr>creating = None, pcs = (\<lambda>i. Start), trace = []\<rparr>"

text \<open>Call \<open>i\<close> issues the requests \<open>es\<close> and is suspended at (or ends in) \<open>p\<close>.\<close>

definition emit :: "nat \<Rightarrow> effect list \<Rightarrow> pc \<Rightarrow> coordinator \<Rightarrow> coordinator" where
  "emit i es p s = s\<lparr>pcs := (pcs s)(i := p), trace := trace s @ map (Pair i) es\<rparr>"

text \<open>
  First version. The test of \<open>creatingOffscreenPromise\<close> and the assignment of the new
  promise to it are in one step (\<open>AfterClose\<close>): no \<open>await\<close> stands between them.
\<close>

definition step_A :: "chrome_env \<Rightarrow> nat \<Rightarrow> answer \<Rightarrow> coordinator \<Rightarrow> coordinator option" where
  "step_A env i a s =
     (case pcs s i of
        Start \<Rightarrow>
          (case a of
             Go \<Rightarrow>
               Some (if \<not> offscreen_api env then emit i [] (Thrown no_offscreen_api) s
                     else emit i [GetContexts] AwaitContextsAtClose s)
           | _ \<Rightarrow> None)
      | AwaitContextsAtClose \<Rightarrow>
          (case a of
             Contexts (Rejected e) \<Rightarrow> Some (emit i [] (Thrown e) s)
           | Contexts (Fulfilled contexts) \<Rightarrow>
               Some (if contexts_nonempty contexts then emit i [CloseDocument] AwaitCloseDocument s
                     else emit i [] AfterClose s)
           | _ \<Rightarrow> None)
      | AwaitCloseDocument \<Rightarrow>
          (case a of Closed r \<Rightarrow> Some (emit i [] AfterClose s) | _ \<Rightarrow> None)
      | AfterClose \<Rightarrow>
          (case a of
             Go \<Rightarrow>
               Some (case creating s of
                       Some p \<Rightarrow> emit i [AwaitCreating] (AwaitInFlight p) s
                     | None \<Rightarrow> (emit i [CreateDocument] AwaitOwnCreation s)\<lparr>creating := Some i\<rparr>)
           | _ \<Rightarrow> None)
      | AwaitInFlight p \<Rightarrow>
          (case a of
             Created (Fulfilled u) \<Rightarrow> Some (emit i [] Returned s)
           | Created (Rejected e) \<Rightarrow> Some (emit i [] (Thrown e) s)
           | _ \<Rightarrow> None)
      | AwaitOwnCreation \<Rightarrow>
          (case a of
             Created (Fulfilled u) \<Rightarrow> Some ((emit i [] Returned s)\<lparr>creating := None\<rparr>)
           | Created (Rejected e) \<Rightarrow> Some ((emit i [] (Thrown e) s)\<lparr>creating := None\<rparr>)
           | _ \<Rightarrow> None)
      | _ \<Rightarrow> None)"

text \<open>
  Version with the runtime.getContexts fix. \<open>hasOffscreenDocument\<close> is awaited even
  when \<open>chrome.runtime.getContexts\<close> is missing (it then answers \<open>false\<close> without a
  request). Between the test of \<open>creatingOffscreenPromise\<close> (step \<open>AfterClose\<close>) and the
  assignment of the new promise (step \<open>AwaitContextsBeforeCreate\<close>) stands the
  \<open>await hasOffscreenDocument()\<close> of the double check.
\<close>

definition query_C :: "chrome_env \<Rightarrow> effect list" where
  "query_C env = (if runtime_getContexts_api env then [GetContexts] else [])"

definition has_C :: "chrome_env \<Rightarrow> answer \<Rightarrow> (js_error + bool) option" where
  "has_C env a =
     (if runtime_getContexts_api env
      then
        (case a of
           Contexts (Rejected e) \<Rightarrow> Some (Inl e)
         | Contexts (Fulfilled contexts) \<Rightarrow> Some (Inr (contexts_nonempty contexts))
         | _ \<Rightarrow> None)
      else Some (Inr False))"

definition step_C :: "chrome_env \<Rightarrow> nat \<Rightarrow> answer \<Rightarrow> coordinator \<Rightarrow> coordinator option" where
  "step_C env i a s =
     (case pcs s i of
        Start \<Rightarrow>
          (case a of
             Go \<Rightarrow>
               Some (if \<not> offscreen_api env then emit i [] (Thrown no_offscreen_api) s
                     else emit i (query_C env) AwaitContextsAtClose s)
           | _ \<Rightarrow> None)
      | AwaitContextsAtClose \<Rightarrow>
          (case has_C env a of
             None \<Rightarrow> None
           | Some (Inl e) \<Rightarrow> Some (emit i [] AfterClose s)
           | Some (Inr has) \<Rightarrow>
               Some (if has then emit i [CloseDocument] AwaitCloseDocument s
                     else emit i [] AfterClose s))
      | AwaitCloseDocument \<Rightarrow>
          (case a of Closed r \<Rightarrow> Some (emit i [] AfterClose s) | _ \<Rightarrow> None)
      | AfterClose \<Rightarrow>
          (case a of
             Go \<Rightarrow>
               Some (case creating s of
                       Some p \<Rightarrow> emit i [AwaitCreating] (AwaitInFlight p) s
                     | None \<Rightarrow> emit i (query_C env) AwaitContextsBeforeCreate s)
           | _ \<Rightarrow> None)
      | AwaitInFlight p \<Rightarrow>
          (case a of
             Created (Fulfilled u) \<Rightarrow> Some (emit i (query_C env) AwaitContextsAfterAwait s)
           | Created (Rejected e) \<Rightarrow> Some (emit i [] (Thrown e) s)
           | _ \<Rightarrow> None)
      | AwaitContextsAfterAwait \<Rightarrow>
          (case has_C env a of
             None \<Rightarrow> None
           | Some (Inl e) \<Rightarrow> Some (emit i [] (Thrown e) s)
           | Some (Inr has) \<Rightarrow>
               Some (if has then emit i [] Returned s
                     else emit i (query_C env) AwaitContextsBeforeCreate s))
      | AwaitContextsBeforeCreate \<Rightarrow>
          (case has_C env a of
             None \<Rightarrow> None
           | Some (Inl e) \<Rightarrow> Some (emit i [] (Thrown e) s)
           | Some (Inr has) \<Rightarrow>
               Some (if has then emit i [] Returned s
                     else (emit i [CreateDocument] AwaitOwnCreation s)\<lparr>creating := Some i\<rparr>))
      | AwaitOwnCreation \<Rightarrow>
          (case a of
             Created (Fulfilled u) \<Rightarrow> Some ((emit i [] Returned s)\<lparr>creating := None\<rparr>)
           | Created (Rejected e) \<Rightarrow> Some ((emit i [] (Thrown e) s)\<lparr>creating := None\<rparr>)
           | _ \<Rightarrow> None)
      | _ \<Rightarrow> None)"

text \<open>
  A schedule resumes calls one after the other. It is \<open>None\<close> when it resumes a call
  with an answer the call is not waiting for.
\<close>

fun run :: "(nat \<Rightarrow> answer \<Rightarrow> coordinator \<Rightarrow> coordinator option) \<Rightarrow> (nat \<times> answer) list
              \<Rightarrow> coordinator \<Rightarrow> coordinator option" where
  "run step [] s = Some s"
| "run step ((i, a) # rest) s = (case step i a s of None \<Rightarrow> None | Some s' \<Rightarrow> run step rest s')"

text \<open>
  One call scheduled alone against the browser \<open>env\<close>: it is resumed with the answer
  \<open>env\<close> gives at the \<open>await\<close> it is suspended at, at most \<open>n\<close> times. \<open>m\<close> is the
  state the promise in \<open>creatingOffscreenPromise\<close> settles in, if there is one.
\<close>

definition browser_answer :: "chrome_env \<Rightarrow> marker \<Rightarrow> pc \<Rightarrow> answer" where
  "browser_answer env m p =
     (case p of
        AwaitContextsAtClose \<Rightarrow> Contexts (contexts_at_close env)
      | AwaitCloseDocument \<Rightarrow> Closed (Fulfilled ())
      | AwaitInFlight q \<Rightarrow> (case m of Some r \<Rightarrow> Created r | None \<Rightarrow> Go)
      | AwaitContextsAfterAwait \<Rightarrow> Contexts (contexts_after_await env)
      | AwaitContextsBeforeCreate \<Rightarrow> Contexts (contexts_before_create env)
      | AwaitOwnCreation \<Rightarrow> Created (createDocument_answer env)
      | _ \<Rightarrow> Go)"

primrec alone :: "(nat \<Rightarrow> answer \<Rightarrow> coordinator \<Rightarrow> coordinator option) \<Rightarrow> (pc \<Rightarrow> answer) \<Rightarrow> nat
                   \<Rightarrow> nat \<Rightarrow> coordinator \<Rightarrow> coordinator" where
  "alone step ans i 0 s = s"
| "alone step ans i (Suc n) s =
     (case step i (ans (pcs s i)) s of None \<Rightarrow> s | Some s' \<Rightarrow> alone step ans i n s')"

definition outcome_pc :: "js_error + unit \<Rightarrow> pc" where
  "outcome_pc r = (case r of Inl e \<Rightarrow> Thrown e | Inr u \<Rightarrow> Returned)"

text \<open>The creations in flight: the calls suspended at the \<open>await\<close> of their own promise.\<close>

definition single_creation :: "coordinator \<Rightarrow> bool" where
  "single_creation s = (\<forall>i. pcs s i = AwaitOwnCreation \<longleftrightarrow> creating s = Some i)"

section \<open>Predicates of the specification and example inputs\<close>

text \<open>
  The worker's contract on \<open>coords\<close>, in the specification's words: one of the four
  fields is not a number, or the width or the height is not positive.
\<close>

definition bad_coords :: "coords option \<Rightarrow> bool" where
  "bad_coords c =
     (case c of
        None \<Rightarrow> True
      | Some k \<Rightarrow>
          \<not> typeof_number (c_x k) \<or> \<not> typeof_number (c_y k) \<or>
          (case c_width k of JNum w \<Rightarrow> w \<le> 0 | _ \<Rightarrow> True) \<or>
          (case c_height k of JNum h \<Rightarrow> h \<le> 0 | _ \<Rightarrow> True))"

text \<open>"Device pixel coordinates are region * devicePixelRatio."\<close>

definition device_pixels :: "rect \<Rightarrow> real \<Rightarrow> rect" where
  "device_pixels region ratio =
     \<lparr>r_x = r_x region * ratio, r_y = r_y region * ratio,
      r_width = r_width region * ratio, r_height = r_height region * ratio\<rparr>"

text \<open>The four numbers of a \<open>coords\<close> object, when they are numbers.\<close>

definition rect_of_coords :: "coords option \<Rightarrow> rect option" where
  "rect_of_coords c =
     (case c of
        Some k \<Rightarrow>
          (case (c_x k, c_y k, c_width k, c_height k) of
             (JNum x, JNum y, JNum w, JNum h) \<Rightarrow>
               Some \<lparr>r_x = x, r_y = y, r_width = w, r_height = h\<rparr>
           | _ \<Rightarrow> None)
      | None \<Rightarrow> None)"


text \<open>Effects of the offscreen-document management only: no reply, notification or message.\<close>

definition quiet :: "effect list \<Rightarrow> bool" where
  "quiet es = (set es \<subseteq> {GetContexts, CloseDocument, CreateDocument, AwaitCreating})"

text \<open>The program counter of call \<open>i\<close>.\<close>

definition pc_of :: "nat \<Rightarrow> coordinator \<Rightarrow> pc" where
  "pc_of i s = pcs s i"

text \<open>A browser with both interfaces and no offscreen document, where creation succeeds.\<close>

definition browser_no_document :: chrome_env where
  "browser_no_document =
     \<lparr>offscreen_api = True, runtime_getContexts_api = True,
      contexts_at_close = Fulfilled (Some 0),
      contexts_after_await = Fulfilled (Some 0),
      contexts_before_create = Fulfilled (Some 0),
      createDocument_answer = Fulfilled ()\<rparr>"

text \<open>
  The same browser when the contexts query of \<open>closeOffscreenDocument\<close> is rejected;
  the error is the one of a call of \<open>chrome.offscreen.getContexts\<close>, the method of the
  first version, where that method does not exist.
\<close>

definition getContexts_missing :: js_error where
  "getContexts_missing =
     \<lparr>err_name = ''TypeError'',
      err_message = ''chrome.offscreen.getContexts is not a function''\<rparr>"

definition browser_query_rejects :: chrome_env where
  "browser_query_rejects = browser_no_document\<lparr>contexts_at_close := Rejected getContexts_missing\<rparr>"

text \<open>A 20x20 image that loads, is drawn and is encoded.\<close>

definition image_20x20 :: image_env where
  "image_20x20 =
     \<lparr>image_loads = Some (20, 20), drawImage_throws = None,
      toBlob_gives = Some (300, ''image/png'')\<rparr>"

definition sample_url :: string where
  "sample_url = ''data:image/png;base64,iVBORw0KGgo=''"

text \<open>A capture that succeeds, and a worker that answers \<open>r\<close>.\<close>

definition worker_answers :: "reply \<Rightarrow> capture_env" where
  "worker_answers r =
     \<lparr>captureVisibleTab_answer = Fulfilled (Some sample_url),
      lastError_after_capture = None,
      sendMessage_answer = Fulfilled (Some r),
      lastError_after_send = None\<rparr>"

text \<open>The request of a drag from (10, 10) to (110, 60) at device pixel ratio 2.\<close>

definition sample_request :: request where
  "sample_request =
     captureArea_message \<lparr>r_x = 10, r_y = 10, r_width = 100, r_height = 50\<rparr> 2"

text \<open>The overlay after a \<open>mousedown\<close> at (10, 10).\<close>

definition dragging_from_10_10 :: selector where
  "dragging_from_10_10 = mousedown \<lparr>startX = 0, startY = 0, isDragging = False\<rparr> 10 10"

text \<open>A \<open>cropAndCopy\<close> request of width 0, and a worker in which every step succeeds.\<close>

definition bad_width_request :: request where
  "bad_width_request =
     \<lparr>target = JStr ''offscreen'', action = JStr ''cropAndCopy'', dataUrl = JStr sample_url,
      req_coords = Some \<lparr>c_x = JNum 0, c_y = JNum 0, c_width = JNum 0, c_height = JNum 10,
                         c_devicePixelRatio = JNum 1\<rparr>\<rparr>"

definition worker_all_fine :: worker_env where
  "worker_all_fine = \<lparr>image = image_20x20, focus_available = True, clipboard_write = None\<rparr>"


text \<open>
  Two calls of the version with the runtime.getContexts fix, the second starting while
  the first waits for its first answer; every contexts query finds no document.
\<close>

definition two_calls_overlap :: "(nat \<times> answer) list" where
  "two_calls_overlap =
     [(0, Go), (1, Go),
      (0, Contexts (Fulfilled (Some 0))), (0, Go),
      (1, Contexts (Fulfilled (Some 0))), (1, Go),
      (0, Contexts (Fulfilled (Some 0))),
      (1, Contexts (Fulfilled (Some 0)))]"

text \<open>
  The same schedule, continued: the first creation is fulfilled; the second is rejected,
  as the browser allows one offscreen document at a time.
\<close>

definition single_document_error :: js_error where
  "single_document_error = Error ''Only a single offscreen document may be created.''"

definition two_calls_settled :: "(nat \<times> answer) list" where
  "two_calls_settled =
     two_calls_overlap @
     [(0, Created (Fulfilled ())), (1, Created (Rejected single_document_error))]"

section \<open>Auxiliary facts\<close>


lemma emit_simps:
  "creating (emit i es p s) = creating s"
  "pcs (emit i es p s) j = (if j = i then p else pcs s j)"
  "trace (emit i es p s) = trace s @ map (Pair i) es"
  by (simp_all add: emit_def)

lemma responses_simps:
  "responses [] = []"
  "responses (es @ fs) = responses es @ responses fs"
  "responses (e # es) = (case e of SendResponse r \<Rightarrow> [r] | _ \<Rightarrow> []) @ responses es"
  by (simp_all add: responses_def)


lemma quiet_simps:
  "quiet []"
  "quiet (e # es) = (e \<in> {GetContexts, CloseDocument, CreateDocument, AwaitCreating} \<and> quiet es)"
  "quiet (es @ fs) = (quiet es \<and> quiet fs)"
  by (auto simp add: quiet_def)



lemma quiet_no_message: "quiet es \<Longrightarrow> SendMessage r \<notin> set es"
  by (auto simp add: quiet_def)

text \<open>Neither version of the setup replies, notifies or sends a message.\<close>

lemma setup_A_quiet: "quiet (fst (setupOffscreenDocumentForClipboard_A env m))"
  by (simp add: setupOffscreenDocumentForClipboard_A_def closeOffscreenDocument_A_def
        hasOffscreenDocument_A_def create_and_await_def quiet_simps
      split: settled.splits option.splits)

lemma setup_C_quiet: "quiet (fst (setupOffscreenDocumentForClipboard_C env m))"
  by (simp add: setupOffscreenDocumentForClipboard_C_def closeOffscreenDocument_C_def
        hasOffscreenDocument_C_def create_and_await_def check_and_create_def quiet_simps
      split: settled.splits option.splits)

lemma setup_quiet:
  assumes "ensureWorker = setupOffscreenDocumentForClipboard_A env \<or>
           ensureWorker = setupOffscreenDocumentForClipboard_C env"
  shows "\<forall>k. quiet (fst (ensureWorker k))"
  using assms by (auto simp add: setup_A_quiet setup_C_quiet)




text \<open>The only message the body sends is the \<open>cropAndCopy\<close> request, with the coords it got.\<close>

lemma captureArea_flow_messages:
  assumes "\<forall>k. quiet (fst (ensureWorker k))"
    and "SendMessage r \<in> set (fst (captureArea_flow ensureWorker cenv req m))"
  shows "\<exists>url. r = cropAndCopy_request url (req_coords req)"
proof -
  obtain es res m' where s: "ensureWorker m = (es, res, m')" by (cases "ensureWorker m")
  from assms(1) have "quiet (fst (ensureWorker m))" by simp
  with s have "SendMessage r \<notin> set es"
    by (simp add: quiet_no_message)
  with assms(2) s show ?thesis
    by (auto simp add: captureArea_flow_def captureArea_catch_def report_reply_def Let_def
        split: sum.splits settled.splits option.splits if_splits)
qed




section \<open>A call scheduled alone\<close>

text \<open>
  The step functions and the functions \<open>setupOffscreenDocumentForClipboard_A\<close> and
  \<open>_C\<close> describe the same code: a call that no other call interleaves with issues
  the requests of the sequential function and ends as it does.
\<close>

lemma marker_cases:
  fixes m :: marker
  obtains (none) "m = None" | (fulfilled) "m = Some (Fulfilled ())"
        | (rejected) e where "m = Some (Rejected e)"
proof (cases m)
  case None
  then show ?thesis using that by simp
next
  case (Some a)
  then show ?thesis using that by (cases a) simp_all
qed

lemma alone_A:
  assumes "pcs s i = Start"
    and "creating s = (case m of None \<Rightarrow> None | Some r \<Rightarrow> Some j)"
  shows "trace (alone (step_A env) (browser_answer env m) i 5 s) =
           trace s @ map (Pair i) (fst (setupOffscreenDocumentForClipboard_A env m)) \<and>
         pcs (alone (step_A env) (browser_answer env m) i 5 s) i =
           outcome_pc (fst (snd (setupOffscreenDocumentForClipboard_A env m))) \<and>
         (creating (alone (step_A env) (browser_answer env m) i 5 s) = None) =
           (snd (snd (setupOffscreenDocumentForClipboard_A env m)) = None)"
  using assms
  by (cases "contexts_at_close env"; cases "createDocument_answer env"; cases m rule: marker_cases;
      simp add: eval_nat_numeral step_A_def emit_simps browser_answer_def outcome_pc_def
        setupOffscreenDocumentForClipboard_A_def closeOffscreenDocument_A_def
        hasOffscreenDocument_A_def create_and_await_def)

lemma alone_C:
  assumes "pcs s i = Start"
    and "creating s = (case m of None \<Rightarrow> None | Some r \<Rightarrow> Some j)"
  shows "trace (alone (step_C env) (browser_answer env m) i 8 s) =
           trace s @ map (Pair i) (fst (setupOffscreenDocumentForClipboard_C env m)) \<and>
         pcs (alone (step_C env) (browser_answer env m) i 8 s) i =
           outcome_pc (fst (snd (setupOffscreenDocumentForClipboard_C env m))) \<and>
         (creating (alone (step_C env) (browser_answer env m) i 8 s) = None) =
           (snd (snd (setupOffscreenDocumentForClipboard_C env m)) = None)"
  using assms
  by (cases "contexts_at_close env"; cases "contexts_after_await env";
      cases "contexts_before_create env"; cases "createDocument_answer env";
      cases m rule: marker_cases;
      simp add: eval_nat_numeral step_C_def has_C_def query_C_def emit_simps browser_answer_def
        outcome_pc_def setupOffscreenDocumentForClipboard_C_def closeOffscreenDocument_C_def
        hasOffscreenDocument_C_def create_and_await_def check_and_create_def)

section \<open>Concurrent creation (C1)\<close>

text \<open>
  In the first version the calls suspended at the \<open>await\<close> of their own
  \<open>createDocument\<close> promise are exactly the one call \<open>creatingOffscreenPromise\<close> names:
  under every schedule and every answer of the browser, at most one creation is in
  flight, and a call that finds the marker set awaits it.
\<close>

lemma step_A_single_creation:
  assumes "single_creation s" and "step_A env i a s = Some s'"
  shows "single_creation s'"
proof -
  from assms(1) have inv: "\<And>j. (pcs s j = AwaitOwnCreation) = (creating s = Some j)"
    by (simp add: single_creation_def)
  have "(pcs s' j = AwaitOwnCreation) = (creating s' = Some j)" for j
    using assms(2) inv[of i] inv[of j]
    by (cases "j = i")
       (auto simp add: step_A_def emit_simps
             split: pc.splits answer.splits settled.splits if_splits option.splits)
  then show ?thesis by (simp add: single_creation_def)
qed

lemma run_A_single_creation:
  "single_creation s \<Longrightarrow> run (step_A env) sched s = Some s' \<Longrightarrow> single_creation s'"
proof (induction sched arbitrary: s)
  case Nil
  then show ?case by simp
next
  case (Cons e rest)
  obtain i a where e: "e = (i, a)" by (cases e)
  from Cons.prems(2) e obtain t
    where t: "step_A env i a s = Some t" and r: "run (step_A env) rest t = Some s'"
    by (auto split: option.splits)
  from step_A_single_creation[OF Cons.prems(1) t] have "single_creation t" .
  from Cons.IH[OF this r] show ?case .
qed

lemma first_version_one_creation_in_flight:
  assumes "run (step_A env) sched idle = Some s"
    and "pcs s i = AwaitOwnCreation" and "pcs s j = AwaitOwnCreation"
  shows "i = j"
proof -
  have "single_creation idle" by (simp add: single_creation_def idle_def)
  from run_A_single_creation[OF this assms(1)] assms(2,3) show ?thesis
    by (simp add: single_creation_def)
qed

lemma first_version_awaits_in_flight:
  assumes "pcs s i = AfterClose" and "creating s = Some p"
  shows "step_A env i Go s = Some (emit i [AwaitCreating] (AwaitInFlight p) s)"
  using assms by (simp add: step_A_def)

text \<open>
  The first six steps of \<open>two_calls_overlap\<close> in the first version: call 0 creates, and
  call 1, which arrives at the test while that creation is in flight, awaits it.
\<close>

lemma first_version_second_call_awaits:
  "map_option trace (run (step_A browser_no_document) (take 6 two_calls_overlap) idle) =
     Some [(0, GetContexts), (1, GetContexts), (0, CreateDocument), (1, AwaitCreating)] \<and>
   map_option (pc_of 0) (run (step_A browser_no_document) (take 6 two_calls_overlap) idle) =
     Some AwaitOwnCreation \<and>
   map_option (pc_of 1) (run (step_A browser_no_document) (take 6 two_calls_overlap) idle) =
     Some (AwaitInFlight 0)"
  by (simp add: two_calls_overlap_def idle_def step_A_def pc_of_def
      browser_no_document_def contexts_nonempty_def emit_def)

text \<open>
  C1. For every pair of concurrent calls of \<open>setupOffscreenDocumentForClipboard\<close>, a
  caller that arrives while a creation is in flight awaits that creation instead of
  starting a second one, so that one worker is created.

  The version with the runtime.getContexts fix does not do this. Its test of
  \<open>creatingOffscreenPromise\<close> and its \<open>createDocument\<close> are separated by
  \<open>await hasOffscreenDocument()\<close>. In the schedule \<open>two_calls_overlap\<close> both calls pass
  the test while the marker is \<open>null\<close> and both are suspended at the double check. Before
  the last step call 0 has called \<open>createDocument\<close> and the marker holds its promise;
  the last step resumes call 1, which calls \<open>createDocument\<close> as well. Both calls then
  wait for a creation of their own.
\<close>

theorem two_calls_both_create:
  "map_option trace (run (step_C browser_no_document) (butlast two_calls_overlap) idle) =
     Some [(0, GetContexts), (1, GetContexts), (0, GetContexts), (1, GetContexts),
           (0, CreateDocument)] \<and>
   map_option creating (run (step_C browser_no_document) (butlast two_calls_overlap) idle) =
     Some (Some 0) \<and>
   map_option trace (run (step_C browser_no_document) two_calls_overlap idle) =
     Some [(0, GetContexts), (1, GetContexts), (0, GetContexts), (1, GetContexts),
           (0, CreateDocument), (1, CreateDocument)] \<and>
   map_option (pc_of 0) (run (step_C browser_no_document) two_calls_overlap idle) =
     Some AwaitOwnCreation \<and>
   map_option (pc_of 1) (run (step_C browser_no_document) two_calls_overlap idle) =
     Some AwaitOwnCreation"
  by (simp add: two_calls_overlap_def idle_def step_C_def has_C_def query_C_def pc_of_def
      browser_no_document_def contexts_nonempty_def emit_def)

text \<open>
  When the browser then rejects the second creation, call 1 throws: its operation fails
  although call 0 has a worker.
\<close>

lemma two_calls_second_fails:
  "map_option (pc_of 0) (run (step_C browser_no_document) two_calls_settled idle) = Some Returned \<and>
   map_option (pc_of 1) (run (step_C browser_no_document) two_calls_settled idle) =
     Some (Thrown single_document_error)"
  by (simp add: two_calls_settled_def two_calls_overlap_def idle_def step_C_def has_C_def
      query_C_def pc_of_def browser_no_document_def contexts_nonempty_def emit_def)

section \<open>Fresh worker before every operation (C2)\<close>


text \<open>
  After the awaited creation the version with the runtime.getContexts fix asks again:
  when neither the query after the \<open>await\<close> nor the double check reports a document,
  it creates one of its own.
\<close>

lemma setup_C_creates_after_await:
  "setupOffscreenDocumentForClipboard_C browser_no_document (Some (Fulfilled ())) =
     ([GetContexts, AwaitCreating, GetContexts, GetContexts, CreateDocument], Inr (), None)"
  by (simp add: setupOffscreenDocumentForClipboard_C_def closeOffscreenDocument_C_def
      hasOffscreenDocument_C_def check_and_create_def create_and_await_def
      browser_no_document_def contexts_nonempty_def)



section \<open>Empty selections (C3)\<close>

text \<open>
  The overlay of content\_script.js sends nothing for an empty region: it hides itself
  and calls \<open>cleanup()\<close>. No message reaches the coordinator, so no notification follows.
\<close>

lemma mouseup_zero_area:
  assumes "isDragging st"
    and "r_width (selected_region st endX endY) \<le> 0 \<or> r_height (selected_region st endX endY) \<le> 0"
  shows "snd (mouseup st endX endY ratio) = [HideOverlay, Cleanup]"
  using assms by (auto simp add: mouseup_def Let_def)

lemma mouseup_zero_area_silent:
  assumes "isDragging st"
    and "r_width (selected_region st endX endY) \<le> 0 \<or> r_height (selected_region st endX endY) \<le> 0"
  shows "sent_messages (snd (mouseup st endX endY ratio)) = [] \<and>
         notifications (snd (mouseup st endX endY ratio)) = []"
  using mouseup_zero_area[OF assms]
  by (simp add: sent_messages_def notifications_def)

text \<open>
  C3. For every selected region with width <= 0 or height <= 0 the overlay sends no
  message.

  \<open>onMouseUp\<close> of content.js has no such test: while a selection is in progress it
  sends the bounding rectangle of the selection box whatever its size, also the empty
  rectangle of a click without a drag.
\<close>

theorem onMouseUp_sends_empty_region:
  assumes "isSelecting" and "hasBox"
    and "r_width region \<le> 0 \<or> r_height region \<le> 0"
  shows "sent_messages (onMouseUp isSelecting hasBox region ratio) =
           [SendAreaSelected \<lparr>msg_type = ''areaSelected'', msg_rect = region, msg_dpr = ratio\<rparr>]"
  using assms by (simp add: onMouseUp_def sent_messages_def)

theorem onMouseUp_sends_empty_region_witness:
  "sent_messages (onMouseUp True True \<lparr>r_x = 5, r_y = 5, r_width = 0, r_height = 0\<rparr> 1) =
     [SendAreaSelected
        \<lparr>msg_type = ''areaSelected'',
         msg_rect = \<lparr>r_x = 5, r_y = 5, r_width = 0, r_height = 0\<rparr>,
         msg_dpr = 1\<rparr>]"
  using onMouseUp_sends_empty_region[of True True "\<lparr>r_x = 5, r_y = 5, r_width = 0, r_height = 0\<rparr>" 1]
  by simp

section \<open>One reply and one notification (C4)\<close>




section \<open>The worker's error reaches the caller (C5)\<close>


text \<open>
  The worker of this repository never sends an empty error: every failure reply of its
  listener starts with \<open>Offscreen: \<close>.
\<close>

lemma cropImage_no_reply:
  "cropImage ienv u x y w h = (es, res) \<Longrightarrow> responses es = []"
  by (auto simp add: cropImage_def Let_def responses_simps
      split: option.splits prod.splits if_splits)

lemma cropAndCopy_replies:
  assumes "r \<in> set (responses (cropAndCopy n2s wenv url c))"
  shows "r = \<lparr>success = True, error = None\<rparr> \<or>
         (\<not> success r \<and> (\<exists>msg. error r = Some (''Offscreen: '' @ msg)))"
  using assms
  by (auto simp add: cropAndCopy_def Let_def responses_simps worker_failure_def
      dest!: cropImage_no_reply
      split: jsval.splits option.splits if_splits prod.splits sum.splits)

lemma offscreen_listener_replies:
  assumes "r \<in> set (responses (fst (offscreen_listener n2s wenv req)))"
  shows "r = \<lparr>success = True, error = None\<rparr> \<or>
         (\<not> success r \<and> (\<exists>msg. error r = Some (''Offscreen: '' @ msg)))"
  using assms cropAndCopy_replies[of r n2s wenv "dataUrl req" "req_coords req"]
  by (auto simp add: offscreen_listener_def responses_simps split: if_splits)



section \<open>Device pixels (C6)\<close>

text \<open>The older background script multiplies at the crop itself.\<close>

lemma cropImage_legacy_device_pixels:
  "legacy_image_loads lenv \<Longrightarrow>
   fst (cropImage_legacy lenv region ratio) =
     [OffscreenCanvasSize (r_width region) (r_height region),
      DrawImage (r_x (device_pixels region ratio)) (r_y (device_pixels region ratio))
                (r_width (device_pixels region ratio)) (r_height (device_pixels region ratio))
                0 0 (r_width region) (r_height region)]"
  by (simp add: cropImage_legacy_def device_pixels_def Let_def)

text \<open>
  C6. For every region the overlay sends (a drag with positive width and height) and
  every device pixel ratio, the coords of the \<open>captureArea\<close> message are the region with
  each of x, y, width and height multiplied by the ratio, and every message the
  coordinator then sends is the \<open>cropAndCopy\<close> request to the worker with these very
  coords. The older background script, which crops by itself, draws from the rectangle
  multiplied in the same way.
\<close>

theorem region_sent_in_device_pixels:
  assumes "isDragging st"
    and "0 < r_width (selected_region st endX endY)"
    and "0 < r_height (selected_region st endX endY)"
    and "ensureWorker = setupOffscreenDocumentForClipboard_A env \<or>
         ensureWorker = setupOffscreenDocumentForClipboard_C env"
  shows "(\<exists>req.
            snd (mouseup st endX endY ratio) = [HideOverlay, SendMessage req] \<and>
            rect_of_coords (req_coords req) =
              Some (device_pixels (selected_region st endX endY) ratio) \<and>
            (\<forall>r. SendMessage r \<in> set (fst (background_listener ensureWorker cenv req sender_tab m)) \<longrightarrow>
                  target r = JStr ''offscreen'' \<and> action r = JStr ''cropAndCopy'' \<and>
                  rect_of_coords (req_coords r) =
                    Some (device_pixels (selected_region st endX endY) ratio))) \<and>
         (legacy_image_loads lenv \<longrightarrow>
            fst (cropImage_legacy lenv region ratio) =
              [OffscreenCanvasSize (r_width region) (r_height region),
               DrawImage (r_x (device_pixels region ratio)) (r_y (device_pixels region ratio))
                         (r_width (device_pixels region ratio)) (r_height (device_pixels region ratio))
                         0 0 (r_width region) (r_height region)])"
proof -
  let ?req = "captureArea_message (selected_region st endX endY) ratio"
  have 1: "snd (mouseup st endX endY ratio) = [HideOverlay, SendMessage ?req]"
    using assms(1-3) by (simp add: mouseup_def Let_def)
  have 2: "rect_of_coords (req_coords ?req) =
           Some (device_pixels (selected_region st endX endY) ratio)"
    by (simp add: captureArea_message_def rect_of_coords_def device_pixels_def)
  have 3: "target r = JStr ''offscreen'' \<and> action r = JStr ''cropAndCopy'' \<and>
           rect_of_coords (req_coords r) = Some (device_pixels (selected_region st endX endY) ratio)"
    if "SendMessage r \<in> set (fst (background_listener ensureWorker cenv ?req sender_tab m))" for r
  proof -
    from that have "SendMessage r \<in> set (fst (captureArea_flow ensureWorker cenv ?req m))"
      by (auto simp add: background_listener_def split: option.splits prod.splits if_splits)
    from captureArea_flow_messages[OF setup_quiet[OF assms(4)] this] obtain url
      where "r = cropAndCopy_request url (req_coords ?req)" by blast
    with 2 show ?thesis by (simp add: cropAndCopy_request_def)
  qed
  from 1 2 3 cropImage_legacy_device_pixels[of lenv region ratio] show ?thesis by blast
qed

theorem region_sent_in_device_pixels_witness:
  "snd (mouseup dragging_from_10_10 110 60 2) = [HideOverlay, SendMessage sample_request] \<and>
   rect_of_coords (req_coords sample_request) =
     Some \<lparr>r_x = 20, r_y = 20, r_width = 200, r_height = 100\<rparr> \<and>
   fst (background_listener (setupOffscreenDocumentForClipboard_C browser_no_document)
          (worker_answers \<lparr>success = True, error = None\<rparr>) sample_request (Some 1) None) =
     [GetContexts, GetContexts, CreateDocument, CaptureVisibleTab,
      SendMessage
        \<lparr>target = JStr ''offscreen'', action = JStr ''cropAndCopy'', dataUrl = JStr sample_url,
         req_coords = Some \<lparr>c_x = JNum 20, c_y = JNum 20, c_width = JNum 200, c_height = JNum 100,
                            c_devicePixelRatio = JNum 2\<rparr>\<rparr>,
      Notification ''Screenshot Copied!'' ''The selected area has been copied to your clipboard.'',
      SendResponse \<lparr>success = True, error = None\<rparr>]"
  using region_sent_in_device_pixels
    [of dragging_from_10_10 110 60 "setupOffscreenDocumentForClipboard_C browser_no_document"
        browser_no_document 2 "worker_answers \<lparr>success = True, error = None\<rparr>" "Some 1" None]
  by (simp add: dragging_from_10_10_def mousedown_def selected_region_def mouseup_def Let_def
      sample_request_def
      captureArea_message_def rect_of_coords_def device_pixels_def background_listener_def
      captureArea_flow_def setupOffscreenDocumentForClipboard_C_def closeOffscreenDocument_C_def
      hasOffscreenDocument_C_def check_and_create_def create_and_await_def browser_no_document_def
      contexts_nonempty_def worker_answers_def report_reply_def cropAndCopy_request_def
      sample_url_def)

section \<open>The worker validates the coords (C7)\<close>

text \<open>
  C7. For every \<open>cropAndCopy\<close> request to the worker in which one of the four coordinate
  fields is not a number, or the width or the height is not positive, the worker does
  nothing but reply \<open>{success: false, error}\<close>: no canvas is sized and nothing is drawn,
  so no size is clamped. The error names the data URL when that is invalid (it is tested
  first), else the coordinates when one is missing or not a number, else the width and
  the height it refuses.
\<close>

theorem worker_rejects_bad_coords:
  assumes "target req = JStr ''offscreen''" and "action req = JStr ''cropAndCopy''"
    and "bad_coords (req_coords req)"
  shows "offscreen_listener n2s wenv req =
           ([SendResponse
               \<lparr>success = False,
                error = Some (''Offscreen: Error - '' @
                  (if \<not> valid_dataUrl (dataUrl req) then ''Invalid or missing dataUrl.''
                   else if \<not> numeric_coords (req_coords req) then ''Invalid or missing coordinates.''
                   else ''Crop dimensions are invalid (width: '' @
                        n2s (num_of (c_width (the (req_coords req)))) @ '', height: '' @
                        n2s (num_of (c_height (the (req_coords req)))) @
                        ''). Must be positive.''))\<rparr>],
            True)"
  using assms
  by (auto simp add: offscreen_listener_def cropAndCopy_def bad_coords_def numeric_coords_def
      typeof_number_def num_of_def Let_def worker_failure_def Error_def or_else_def
      invalid_dimensions_def valid_dataUrl_def
      split: jsval.splits option.splits)

theorem worker_rejects_bad_coords_witness:
  "bad_coords (req_coords bad_width_request) \<and>
   offscreen_listener (\<lambda>r. ''0'') worker_all_fine bad_width_request =
     ([SendResponse
         \<lparr>success = False,
          error = Some ''Offscreen: Error - Crop dimensions are invalid (width: 0, height: 0). Must be positive.''\<rparr>],
      True)"
  using worker_rejects_bad_coords[of bad_width_request "\<lambda>r. ''0''" worker_all_fine]
  by (simp add: bad_width_request_def bad_coords_def valid_dataUrl_def sample_url_def
      numeric_coords_def typeof_number_def num_of_def)

section \<open>The size of the cropped raster (C8)\<close>



text \<open>
  Neither a negative offset nor an excess is tested on the requested numbers: the test
  is on the rounded ones. A request at x = -0.3, and one of width 25.4 on the image of
  width 20, are drawn without a warning.
\<close>

lemma rounded_rectangle_is_tested:
  "cropImage image_20x20 sample_url (- 3 / 10) 0 10 10 =
     ([CanvasSize 10 10, DrawImage 0 0 10 10 0 0 10 10],
      Inr \<lparr>blob_size = 300, blob_type = ''image/png'', raster_width = 10, raster_height = 10\<rparr>) \<and>
   cropImage image_20x20 sample_url 0 0 (254 / 10) 10 =
     ([CanvasSize 25 10, DrawImage 0 0 25 10 0 0 25 10],
      Inr \<lparr>blob_size = 300, blob_type = ''image/png'', raster_width = 25, raster_height = 10\<rparr>)"
  by (simp add: cropImage_def image_20x20_def sample_url_def Let_def Math_round_def
      source_rect_outside_def canvas_attribute_def)



section \<open>Closing when there is no worker (C9)\<close>

text \<open>
  In the version with the runtime.getContexts fix nothing escapes
  \<open>closeOffscreenDocument\<close>. In the first version the query stands outside the
  \<open>try\<close>: its rejection, and nothing else, is thrown on.
\<close>

lemma close_C_never_throws: "snd (closeOffscreenDocument_C env) = Inr ()"
  by (simp add: closeOffscreenDocument_C_def hasOffscreenDocument_C_def split: settled.splits)

lemma close_A_throws_iff:
  "snd (closeOffscreenDocument_A env) = Inl e \<longleftrightarrow>
     offscreen_api env \<and> contexts_at_close env = Rejected e"
  by (auto simp add: closeOffscreenDocument_A_def hasOffscreenDocument_A_def
      split: settled.splits)

text \<open>
  When the contexts queries answer and report no offscreen document,
  \<open>closeOffscreenDocument\<close> of either version returns normally without calling
  \<open>closeDocument\<close>, and the setup it is part of goes on to call \<open>createDocument\<close> and
  returns what the creation settles in.
\<close>

lemma close_without_document:
  assumes "contexts_at_close env = Fulfilled contexts" and "\<not> contexts_nonempty contexts"
    and "contexts_before_create env = Fulfilled contexts'" and "\<not> contexts_nonempty contexts'"
  shows "closeOffscreenDocument_A env = (if offscreen_api env then [GetContexts] else [], Inr ()) \<and>
         closeOffscreenDocument_C env =
           (if offscreen_api env \<and> runtime_getContexts_api env then [GetContexts] else [], Inr ()) \<and>
         (offscreen_api env \<longrightarrow>
            setupOffscreenDocumentForClipboard_A env None =
              ([GetContexts, CreateDocument],
               (case createDocument_answer env of Fulfilled u \<Rightarrow> Inr () | Rejected e \<Rightarrow> Inl e),
               None) \<and>
            setupOffscreenDocumentForClipboard_C env None =
              (query_C env @ query_C env @ [CreateDocument],
               (case createDocument_answer env of Fulfilled u \<Rightarrow> Inr () | Rejected e \<Rightarrow> Inl e),
               None))"
  using assms
  by (auto simp add: closeOffscreenDocument_A_def hasOffscreenDocument_A_def
      closeOffscreenDocument_C_def hasOffscreenDocument_C_def
      setupOffscreenDocumentForClipboard_A_def setupOffscreenDocumentForClipboard_C_def
      create_and_await_def check_and_create_def query_C_def
      split: settled.splits)

text \<open>
  C9. Closing when no worker exists raises no error and does not keep a following
  creation from succeeding.

  The first version does not do this when the contexts query is rejected. Its query
  stands outside the \<open>try\<close> of \<open>closeOffscreenDocument\<close>, so the rejection is thrown
  out of \<open>closeOffscreenDocument\<close> and out of the setup, which never reaches
  \<open>createDocument\<close>, although there is no worker and the creation would succeed. The
  version with the runtime.getContexts fix has the query inside the \<open>try\<close>: there the
  close returns normally.
\<close>

theorem close_throws_on_rejected_query:
  assumes "offscreen_api env" and "contexts_at_close env = Rejected e"
  shows "closeOffscreenDocument_A env = ([GetContexts], Inl e) \<and>
         setupOffscreenDocumentForClipboard_A env None = ([GetContexts], Inl e, None) \<and>
         closeOffscreenDocument_C env = (query_C env, Inr ())"
  using assms
  by (simp add: closeOffscreenDocument_A_def hasOffscreenDocument_A_def
      setupOffscreenDocumentForClipboard_A_def closeOffscreenDocument_C_def
      hasOffscreenDocument_C_def query_C_def)

theorem close_throws_on_rejected_query_witness:
  "closeOffscreenDocument_A browser_query_rejects = ([GetContexts], Inl getContexts_missing) \<and>
   setupOffscreenDocumentForClipboard_A browser_query_rejects None =
     ([GetContexts], Inl getContexts_missing, None) \<and>
   closeOffscreenDocument_C browser_query_rejects = ([GetContexts], Inr ()) \<and>
   setupOffscreenDocumentForClipboard_C browser_query_rejects None =
     ([GetContexts, GetContexts, CreateDocument], Inr (), None)"
  using close_throws_on_rejected_query[of browser_query_rejects getContexts_missing]
  by (simp add: browser_query_rejects_def browser_no_document_def query_C_def
      setupOffscreenDocumentForClipboard_C_def closeOffscreenDocument_C_def
      hasOffscreenDocument_C_def check_and_create_def create_and_await_def contexts_nonempty_def)

section \<open>Messages that are not a cropAndCopy request (C10)\<close>

text \<open>
  C10. For every message whose \<open>target\<close> is not \<open>'offscreen'\<close> the worker's listener
  sends no reply and returns \<open>false\<close>; for every message to the worker whose \<open>action\<close>
  is not \<open>'cropAndCopy'\<close> it sends the one reply \<open>{success: false, error}\<close> whose error
  names the action.
\<close>

theorem offscreen_listener_other_messages:
  "(target req \<noteq> JStr ''offscreen'' \<longrightarrow>
      responses (fst (offscreen_listener n2s wenv req)) = [] \<and>
      \<not> snd (offscreen_listener n2s wenv req)) \<and>
   (target req = JStr ''offscreen'' \<and> action req \<noteq> JStr ''cropAndCopy'' \<longrightarrow>
      responses (fst (offscreen_listener n2s wenv req)) =
        [\<lparr>success = False,
          error = Some (''Offscreen: Unknown action '' @ [CHR 0x27] @
                        js_to_string n2s (action req) @ [CHR 0x27])\<rparr>])"
  by (simp add: offscreen_listener_def responses_simps)

theorem offscreen_listener_other_messages_witness:
  "responses (fst (offscreen_listener (\<lambda>r. ''0'') worker_all_fine sample_request)) = [] \<and>
   responses (fst (offscreen_listener (\<lambda>r. ''0'') worker_all_fine
                     (bad_width_request\<lparr>action := JStr ''ping''\<rparr>))) =
     [\<lparr>success = False,
       error = Some (''Offscreen: Unknown action '' @ [CHR 0x27] @ ''ping'' @ [CHR 0x27])\<rparr>]"
  using offscreen_listener_other_messages[of sample_request "\<lambda>r. ''0''" worker_all_fine]
    offscreen_listener_other_messages
      [of "bad_width_request\<lparr>action := JStr ''ping''\<rparr>" "\<lambda>r. ''0''" worker_all_fine]
  by (simp add: sample_request_def captureArea_message_def bad_width_request_def js_to_string_def)

end
